theory Spec2Isabelle
  imports Main
begin

section \<open>The backend client\<close>

text \<open>
  Both screens talk to one query client. A request is a promise: awaiting it either
  throws (the promise rejected) or yields a response object with the fields
  \<^verbatim>\<open>data\<close>, \<^verbatim>\<open>error\<close> and \<^verbatim>\<open>count\<close>, each of which may be
  \<^verbatim>\<open>null\<close>. What the store answers is an input of the model.
\<close>

datatype 'a settled = Fulfilled 'a | Rejected string

record 'a response =
  rdata :: "'a option"
  rerror :: "string option"
  rcount :: "nat option"

text \<open>
  A request that runs beside others is given with the moment at which it settles, since
  \<^verbatim>\<open>Promise.all\<close> depends on it: it is fulfilled with every value, in the order of
  the array, when every promise is fulfilled, and it is rejected as soon as one of them
  rejects, with the reason of the promise that rejected first in time.
  \<open>first_rejection\<close> finds that promise (of two rejections at one moment, which the
  event loop does not produce, it keeps the one earlier in the array).
\<close>

type_synonym 'a timed = "nat \<times> 'a settled"

fun is_rejected :: "'a timed \<Rightarrow> bool" where
  "is_rejected (t, Rejected e) = True"
| "is_rejected (t, Fulfilled v) = False"

fun first_rejection :: "'a timed list \<Rightarrow> (nat \<times> string) option" where
  "first_rejection [] = None"
| "first_rejection ((t, Fulfilled v) # ps) = first_rejection ps"
| "first_rejection ((t, Rejected e) # ps) =
     (case first_rejection ps of
        None \<Rightarrow> Some (t, e)
      | Some (t', e') \<Rightarrow> if t' < t then Some (t', e') else Some (t, e))"

fun fulfilled_values :: "'a timed list \<Rightarrow> 'a list" where
  "fulfilled_values [] = []"
| "fulfilled_values ((t, Fulfilled v) # ps) = v # fulfilled_values ps"
| "fulfilled_values ((t, Rejected e) # ps) = fulfilled_values ps"

definition promise_all :: "'a timed list \<Rightarrow> 'a list settled" where
  "promise_all ps =
     (case first_rejection ps of
        Some (t, e) \<Rightarrow> Rejected e
      | None \<Rightarrow> Fulfilled (fulfilled_values ps))"

text \<open>
  The two ways a request fails in the source's \<^verbatim>\<open>try\<close> blocks that test
  \<^verbatim>\<open>error\<close> (\<^verbatim>\<open>if (error) throw error\<close>): the promise rejected, or the
  response carries an error. \<open>failure_reason\<close> is the value that reaches
  \<^verbatim>\<open>catch\<close>.
\<close>

definition query_failed :: "'a response settled \<Rightarrow> bool" where
  "query_failed q = (case q of Rejected e \<Rightarrow> True | Fulfilled r \<Rightarrow> rerror r \<noteq> None)"

definition failure_reason :: "'a response settled \<Rightarrow> string" where
  "failure_reason q =
     (case q of
        Rejected e \<Rightarrow> e
      | Fulfilled r \<Rightarrow> (case rerror r of Some e \<Rightarrow> e | None \<Rightarrow> []))"

section \<open>Dashboard.tsx\<close>

text \<open>A row of a result list (\<^verbatim>\<open>any[]\<close> in the source): column names with values.\<close>

type_synonym row = "(string \<times> string) list"

record DashboardData =
  artistsCount :: nat
  bookingsCount :: nat
  productionsCount :: nat
  activeProductionsCount :: nat
  recentProductions :: "row list"
  upcomingBookings :: "row list"

text \<open>
  The component state: \<^verbatim>\<open>data\<close> (initially \<^verbatim>\<open>null\<close>) and \<^verbatim>\<open>isLoading\<close>
  (initially \<^verbatim>\<open>true\<close>); the fields carry the prefix \<open>d_\<close> since the inbox screen has
  an \<^verbatim>\<open>isLoading\<close> of its own. \<open>d_console\<close> collects the calls of
  \<^verbatim>\<open>console.error\<close>.
\<close>

record dashboard_state =
  d_data :: "DashboardData option"
  d_isLoading :: bool
  d_console :: "(string \<times> string) list"

definition dashboard_init :: dashboard_state where
  "dashboard_init = \<lparr>d_data = None, d_isLoading = True, d_console = []\<rparr>"

text \<open>\<^verbatim>\<open>x.count || 0\<close> and \<^verbatim>\<open>x.data || []\<close>.\<close>

definition count_or_0 :: "'a response \<Rightarrow> nat" where
  "count_or_0 r = (case rcount r of None \<Rightarrow> 0 | Some n \<Rightarrow> n)"

definition data_or_empty :: "'b list response \<Rightarrow> 'b list" where
  "data_or_empty r = (case rdata r of None \<Rightarrow> [] | Some xs \<Rightarrow> xs)"

text \<open>
  \<^verbatim>\<open>fetchDashboardData\<close>, given when and how each of the six requests of its
  \<^verbatim>\<open>Promise.all\<close> settles (artists, bookings, productions, active productions,
  recent productions, upcoming bookings). The \<^verbatim>\<open>try\<close> body publishes the snapshot,
  \<^verbatim>\<open>catch\<close> logs, \<^verbatim>\<open>finally\<close> clears the loading flag. The array the source
  destructures always has six elements; the last case keeps the function total and
  behaves as the source would on a shorter array (reading \<^verbatim>\<open>.count\<close> of
  \<^verbatim>\<open>undefined\<close> throws into \<^verbatim>\<open>catch\<close>).
\<close>

definition fetchDashboardData ::
  "row list response timed \<Rightarrow> row list response timed \<Rightarrow> row list response timed \<Rightarrow>
   row list response timed \<Rightarrow> row list response timed \<Rightarrow> row list response timed \<Rightarrow>
   dashboard_state \<Rightarrow> dashboard_state" where
  "fetchDashboardData q1 q2 q3 q4 q5 q6 s =
     (let s' =
        (case promise_all [q1, q2, q3, q4, q5, q6] of
           Fulfilled [artistsResult, bookingsResult, productionsResult,
                      activeProductionsResult, recentProductionsResult, upcomingBookingsResult] \<Rightarrow>
             s\<lparr>d_data := Some \<lparr>artistsCount = count_or_0 artistsResult,
                               bookingsCount = count_or_0 bookingsResult,
                               productionsCount = count_or_0 productionsResult,
                               activeProductionsCount = count_or_0 activeProductionsResult,
                               recentProductions = data_or_empty recentProductionsResult,
                               upcomingBookings = data_or_empty upcomingBookingsResult\<rparr>\<rparr>
         | Fulfilled _ \<Rightarrow>
             s\<lparr>d_console := d_console s @ [(''Error fetching dashboard data:'', ''TypeError'')]\<rparr>
         | Rejected e \<Rightarrow>
             s\<lparr>d_console := d_console s @ [(''Error fetching dashboard data:'', e)]\<rparr>)
      in s'\<lparr>d_isLoading := False\<rparr>)"

text \<open>
  What the component renders: the spinner while \<^verbatim>\<open>isLoading\<close>, else the page
  heading, followed by the statistics and the recent activity only when
  \<^verbatim>\<open>data\<close> is set (\<^verbatim>\<open>{data && ...}\<close>).
\<close>

datatype dashboard_view = Spinner | Page "DashboardData option"

definition render_dashboard :: "dashboard_state \<Rightarrow> dashboard_view" where
  "render_dashboard s = (if d_isLoading s then Spinner else Page (d_data s))"

section \<open>Messages.tsx\<close>

subsection \<open>Data\<close>

text \<open>
  \<^verbatim>\<open>created_at\<close> is the serialised timestamp of the row; the model keeps the instant
  it denotes (a number on the time line), which is what the store orders by.
\<close>

record Message =
  msg_id :: string
  subject :: string
  content :: string
  is_read :: bool
  is_admin_message :: bool
  created_at :: int
  sender_id :: string
  recipient_id :: "string option"

record AdminUser =
  admin_id :: string
  full_name :: string

text \<open>The signed-in user of \<^verbatim>\<open>useAuth\<close>; only its \<^verbatim>\<open>id\<close> is read.\<close>

record auth_user =
  user_id :: string

record compose_form =
  form_subject :: string
  form_content :: string

text \<open>The row handed to \<^verbatim>\<open>insert\<close>.\<close>

record message_insert =
  ins_sender_id :: string
  ins_recipient_id :: "string option"
  ins_subject :: string
  ins_content :: string
  ins_is_admin_message :: bool

text \<open>The requests the screen sends to the store, and the toasts it shows.\<close>

datatype request =
    SelectMessages string
  | SelectAdminRoles
  | SelectProfiles "string list"
  | InsertMessage message_insert
  | UpdateIsRead string

datatype toast = ToastError string | ToastSuccess string | ToastInfo string

text \<open>A realtime channel: its name and the row filter of its INSERT listener.\<close>

type_synonym channel = "string \<times> string"

text \<open>
  The state of the screen: the values of \<^verbatim>\<open>useAuth\<close> and of each
  \<^verbatim>\<open>useState\<close>, followed by what the screen has done to the outside: the requests
  sent (oldest first), the toasts shown, the \<^verbatim>\<open>console.error\<close> lines, the channels
  the client holds, and the navigations.
\<close>

record inbox_state =
  user :: "auth_user option"
  authLoading :: bool
  messages :: "Message list"
  admins :: "AdminUser list"
  isLoading :: bool
  isSending :: bool
  newMessageOpen :: bool
  selectedMessage :: "Message option"
  messageForm :: compose_form
  requests :: "request list"
  toasts :: "toast list"
  console :: "(string \<times> string) list"
  channels :: "channel list"
  navigations :: "string list"

text \<open>The state at mount; \<open>new\<close> says whether the URL carries \<^verbatim>\<open>?new=true\<close>.\<close>

definition inbox_init :: "auth_user option \<Rightarrow> bool \<Rightarrow> bool \<Rightarrow> inbox_state" where
  "inbox_init u loading new =
     \<lparr>user = u, authLoading = loading, messages = [], admins = [], isLoading = True,
      isSending = False, newMessageOpen = new, selectedMessage = None,
      messageForm = \<lparr>form_subject = [], form_content = []\<rparr>,
      requests = [], toasts = [], console = [], channels = [], navigations = []\<rparr>"

subsection \<open>Comparisons with \<^verbatim>\<open>user?.id\<close>\<close>

text \<open>
  \<^verbatim>\<open>m.sender_id === user?.id\<close> compares a string with a string or
  \<^verbatim>\<open>undefined\<close>; \<^verbatim>\<open>m.recipient_id === user?.id\<close> compares a string or
  \<^verbatim>\<open>null\<close> with a string or \<^verbatim>\<open>undefined\<close>, and \<^verbatim>\<open>null === undefined\<close>
  is false.
\<close>

definition is_sender :: "auth_user option \<Rightarrow> Message \<Rightarrow> bool" where
  "is_sender u m = (case u of None \<Rightarrow> False | Some v \<Rightarrow> sender_id m = user_id v)"

definition is_recipient :: "auth_user option \<Rightarrow> Message \<Rightarrow> bool" where
  "is_recipient u m =
     (case u of None \<Rightarrow> False
      | Some v \<Rightarrow> (case recipient_id m of None \<Rightarrow> False | Some r \<Rightarrow> r = user_id v))"

subsection \<open>Asynchronous operations\<close>

text \<open>
  An \<^verbatim>\<open>async\<close> function runs to its first \<^verbatim>\<open>await\<close>, where it has sent a
  request and is suspended, and runs on when the request settles. Each is modelled by
  the part that runs at once (\<open>_begin\<close>, returning whether it is suspended at the
  \<^verbatim>\<open>await\<close>) and the part that runs at settlement (\<open>_resume\<close>, on the state of
  that later moment); the function of the source's name composes the two for a request
  that settles with nothing in between.
\<close>

text \<open>
  The functions of the component are closures of one render: \<^verbatim>\<open>user\<close> in their
  bodies is the user of that render. \<open>fetchMessages_begin_as cu\<close> is the closure of a
  render whose user was \<open>cu\<close>, run on the state of the moment; \<open>fetchMessages_begin\<close>
  is the closure of the current render.
\<close>

definition fetchMessages_begin_as :: "auth_user option \<Rightarrow> inbox_state \<Rightarrow> bool \<times> inbox_state" where
  "fetchMessages_begin_as cu s =
     (case cu of
        None \<Rightarrow> (False, s)
      | Some u \<Rightarrow> (True, s\<lparr>requests := requests s @ [SelectMessages (user_id u)]\<rparr>))"

definition fetchMessages_begin :: "inbox_state \<Rightarrow> bool \<times> inbox_state" where
  "fetchMessages_begin s = fetchMessages_begin_as (user s) s"


definition fetchMessages_resume :: "Message list response settled \<Rightarrow> inbox_state \<Rightarrow> inbox_state" where
  "fetchMessages_resume q s =
     (let s' =
        (case q of
           Fulfilled r \<Rightarrow>
             (case rerror r of
                Some e \<Rightarrow> s\<lparr>console := console s @ [(''Error fetching messages:'', e)]\<rparr>
              | None \<Rightarrow> s\<lparr>messages := data_or_empty r\<rparr>)
         | Rejected e \<Rightarrow> s\<lparr>console := console s @ [(''Error fetching messages:'', e)]\<rparr>)
      in s'\<lparr>isLoading := False\<rparr>)"

definition fetchMessages :: "Message list response settled \<Rightarrow> inbox_state \<Rightarrow> inbox_state" where
  "fetchMessages q s =
     (case fetchMessages_begin s of
        (True, s') \<Rightarrow> fetchMessages_resume q s'
      | (False, s') \<Rightarrow> s')"

text \<open>
  \<^verbatim>\<open>fetchAdmins\<close> awaits twice: the role rows (of which the column
  \<^verbatim>\<open>user_id\<close> is selected, so a row is that string), then the profiles.
\<close>

definition fetchAdmins_begin :: "inbox_state \<Rightarrow> inbox_state" where
  "fetchAdmins_begin s = s\<lparr>requests := requests s @ [SelectAdminRoles]\<rparr>"

definition fetchAdmins_roles :: "string list response settled \<Rightarrow> inbox_state \<Rightarrow> bool \<times> inbox_state" where
  "fetchAdmins_roles q s =
     (case q of
        Rejected e \<Rightarrow> (False, s\<lparr>console := console s @ [(''Error fetching admins:'', e)]\<rparr>)
      | Fulfilled r \<Rightarrow>
          (case rdata r of
             None \<Rightarrow> (False, s)
           | Some [] \<Rightarrow> (False, s)
           | Some adminIds \<Rightarrow> (True, s\<lparr>requests := requests s @ [SelectProfiles adminIds]\<rparr>)))"

definition fetchAdmins_profiles :: "AdminUser list response settled \<Rightarrow> inbox_state \<Rightarrow> inbox_state" where
  "fetchAdmins_profiles q s =
     (case q of
        Rejected e \<Rightarrow> s\<lparr>console := console s @ [(''Error fetching admins:'', e)]\<rparr>
      | Fulfilled r \<Rightarrow> s\<lparr>admins := data_or_empty r\<rparr>)"

subsection \<open>The realtime subscription\<close>

text \<open>
  \<^verbatim>\<open>setupRealtime\<close> returns \<^verbatim>\<open>undefined\<close> without a user; otherwise it
  subscribes the channel and returns the function that removes it. That function is
  the value \<open>RemoveChannel\<close>, run by \<open>run_cleanup\<close>.
\<close>

datatype cleanup = RemoveChannel string

definition setupRealtime :: "inbox_state \<Rightarrow> cleanup option \<times> inbox_state" where
  "setupRealtime s =
     (case user s of
        None \<Rightarrow> (None, s)
      | Some u \<Rightarrow>
          (Some (RemoveChannel ''member-messages-page''),
           s\<lparr>channels := channels s @ [(''member-messages-page'', ''recipient_id=eq.'' @ user_id u)]\<rparr>))"

fun run_cleanup :: "cleanup \<Rightarrow> inbox_state \<Rightarrow> inbox_state" where
  "run_cleanup (RemoveChannel n) s = s\<lparr>channels := filter (\<lambda>c. fst c \<noteq> n) (channels s)\<rparr>"


text \<open>
  The effect of \<^verbatim>\<open>useEffect\<close>: the state after it has run, and the value the effect
  returns. The source calls \<^verbatim>\<open>setupRealtime()\<close> as a statement, so what that call
  returns is dropped and the effect itself returns \<^verbatim>\<open>undefined\<close> on every path.
\<close>

definition useEffect_body :: "inbox_state \<Rightarrow> cleanup option \<times> inbox_state" where
  "useEffect_body s =
     (if \<not> authLoading s \<and> user s = None then
        (None, s\<lparr>navigations := navigations s @ [''/login'']\<rparr>)
      else if user s \<noteq> None then
        (let s1 = snd (fetchMessages_begin s);
             s2 = fetchAdmins_begin s1;
             s3 = snd (setupRealtime s2)
         in (None, s3))
      else (None, s))"

text \<open>
  React at unmount: it calls the function the effect returned, when the effect returned
  one.
\<close>

definition unmount :: "cleanup option \<times> inbox_state \<Rightarrow> inbox_state" where
  "unmount p = (case fst p of None \<Rightarrow> snd p | Some c \<Rightarrow> run_cleanup c (snd p))"

subsection \<open>Sending\<close>

text \<open>\<^verbatim>\<open>admins[0]?.id || null\<close>: the empty string is falsy.\<close>

definition first_admin_or_null :: "AdminUser list \<Rightarrow> string option" where
  "first_admin_or_null as =
     (case as of
        [] \<Rightarrow> None
      | a # _ \<Rightarrow> (if admin_id a = [] then None else Some (admin_id a)))"

definition handleSendMessage_begin :: "inbox_state \<Rightarrow> bool \<times> inbox_state" where
  "handleSendMessage_begin s =
     (case user s of
        None \<Rightarrow> (False, s\<lparr>toasts := toasts s @ [ToastError ''Preencha todos os campos'']\<rparr>)
      | Some u \<Rightarrow>
          (if form_subject (messageForm s) = [] \<or> form_content (messageForm s) = [] then
             (False, s\<lparr>toasts := toasts s @ [ToastError ''Preencha todos os campos'']\<rparr>)
           else
             (True,
              s\<lparr>isSending := True,
                requests := requests s @
                  [InsertMessage
                     \<lparr>ins_sender_id = user_id u,
                      ins_recipient_id = first_admin_or_null (admins s),
                      ins_subject = form_subject (messageForm s),
                      ins_content = form_content (messageForm s),
                      ins_is_admin_message = False\<rparr>]\<rparr>)))"

definition send_failed :: "string \<Rightarrow> inbox_state \<Rightarrow> inbox_state" where
  "send_failed e s =
     s\<lparr>console := console s @ [(''Error sending message:'', e)],
       toasts := toasts s @ [ToastError ''Erro ao enviar mensagem'']\<rparr>"

text \<open>
  The part after the \<^verbatim>\<open>await\<close> runs in the closure of the render in which the
  handler was called: the \<^verbatim>\<open>fetchMessages\<close> it calls is the one of that render,
  with the user \<open>cu\<close> of that render, whoever is signed in when the insert settles.
\<close>

definition handleSendMessage_resume ::
  "auth_user option \<Rightarrow> unit response settled \<Rightarrow> inbox_state \<Rightarrow> inbox_state" where
  "handleSendMessage_resume cu q s =
     (let s' =
        (case q of
           Rejected e \<Rightarrow> send_failed e s
         | Fulfilled r \<Rightarrow>
             (case rerror r of
                Some e \<Rightarrow> send_failed e s
              | None \<Rightarrow>
                  snd (fetchMessages_begin_as cu
                    (s\<lparr>toasts := toasts s @ [ToastSuccess ''Mensagem enviada!''],
                       newMessageOpen := False,
                       messageForm := \<lparr>form_subject = [], form_content = []\<rparr>\<rparr>))))
      in s'\<lparr>isSending := False\<rparr>)"

definition handleSendMessage :: "unit response settled \<Rightarrow> inbox_state \<Rightarrow> inbox_state" where
  "handleSendMessage q s =
     (case handleSendMessage_begin s of
        (True, s') \<Rightarrow> handleSendMessage_resume (user s) q s'
      | (False, s') \<Rightarrow> s')"

subsection \<open>Opening a message\<close>

text \<open>The function handed to \<^verbatim>\<open>setMessages\<close> after the update.\<close>

definition mark_read_patch :: "string \<Rightarrow> Message list \<Rightarrow> Message list" where
  "mark_read_patch mid prev = map (\<lambda>m. if msg_id m = mid then m\<lparr>is_read := True\<rparr> else m) prev"

definition handleOpenMessage_begin :: "Message \<Rightarrow> inbox_state \<Rightarrow> bool \<times> inbox_state" where
  "handleOpenMessage_begin message s =
     (let s1 = s\<lparr>selectedMessage := Some message\<rparr> in
      if \<not> is_read message \<and> is_recipient (user s) message then
        (True, s1\<lparr>requests := requests s1 @ [UpdateIsRead (msg_id message)]\<rparr>)
      else (False, s1))"

text \<open>
  What the update answers is not read; a rejection leaves the handler by the
  exception, before \<^verbatim>\<open>setMessages\<close>.
\<close>

definition handleOpenMessage_resume ::
  "Message \<Rightarrow> unit response settled \<Rightarrow> inbox_state \<Rightarrow> inbox_state" where
  "handleOpenMessage_resume message q s =
     (case q of
        Rejected e \<Rightarrow> s
      | Fulfilled r \<Rightarrow> s\<lparr>messages := mark_read_patch (msg_id message) (messages s)\<rparr>)"

definition handleOpenMessage ::
  "Message \<Rightarrow> unit response settled \<Rightarrow> inbox_state \<Rightarrow> inbox_state" where
  "handleOpenMessage message q s =
     (case handleOpenMessage_begin message s of
        (True, s') \<Rightarrow> handleOpenMessage_resume message q s'
      | (False, s') \<Rightarrow> s')"

subsection \<open>Derived views\<close>

definition sentMessages :: "inbox_state \<Rightarrow> Message list" where
  "sentMessages s = filter (is_sender (user s)) (messages s)"

definition receivedMessages :: "inbox_state \<Rightarrow> Message list" where
  "receivedMessages s = filter (is_recipient (user s)) (messages s)"


section \<open>Sample data\<close>

text \<open>
  Concrete values for the evaluated instances below: a signed-in member, a message, the
  answers of the store, and a filled compose dialog.
\<close>

definition alice :: auth_user where
  "alice = \<lparr>user_id = ''u1''\<rparr>"

definition msg :: "string \<Rightarrow> int \<Rightarrow> string \<Rightarrow> string option \<Rightarrow> bool \<Rightarrow> Message" where
  "msg i t from to rd =
     \<lparr>msg_id = i, subject = ''Horario'', content = ''Posso remarcar?'', is_read = rd,
      is_admin_message = False, created_at = t, sender_id = from, recipient_id = to\<rparr>"

definition listed :: "Message list \<Rightarrow> Message list response settled" where
  "listed ms = Fulfilled \<lparr>rdata = Some ms, rerror = None, rcount = None\<rparr>"

definition failed :: "string \<Rightarrow> 'a response settled" where
  "failed e = Fulfilled \<lparr>rdata = None, rerror = Some e, rcount = None\<rparr>"

definition succeeded :: "unit response settled" where
  "succeeded = Fulfilled \<lparr>rdata = None, rerror = None, rcount = None\<rparr>"

definition counted :: "nat \<Rightarrow> row list response settled" where
  "counted n = Fulfilled \<lparr>rdata = None, rerror = None, rcount = Some n\<rparr>"

definition rows_of :: "row list \<Rightarrow> row list response settled" where
  "rows_of rs = Fulfilled \<lparr>rdata = Some rs, rerror = None, rcount = None\<rparr>"

definition composing :: "string \<Rightarrow> string \<Rightarrow> inbox_state \<Rightarrow> inbox_state" where
  "composing sub con s =
     s\<lparr>newMessageOpen := True, messageForm := \<lparr>form_subject = sub, form_content = con\<rparr>\<rparr>"

section \<open>Properties of the dashboard\<close>

lemma first_rejection_exists:
  "\<exists>p \<in> set ps. is_rejected p \<Longrightarrow> \<exists>t e. first_rejection ps = Some (t, e)"
proof (induction ps rule: first_rejection.induct)
  case 1
  then show ?case by simp
next
  case (2 t v ps)
  then show ?case by simp
next
  case (3 t e ps)
  show ?case by (cases "first_rejection ps") auto
qed

lemma promise_all_rejected:
  "\<exists>p \<in> set ps. is_rejected p \<Longrightarrow> \<exists>e. promise_all ps = Rejected e"
proof -
  assume "\<exists>p \<in> set ps. is_rejected p"
  then obtain t e where "first_rejection ps = Some (t, e)"
    using first_rejection_exists by blast
  then show ?thesis by (simp add: promise_all_def)
qed

text \<open>The rejection that comes first in time wins, wherever it stands in the array.\<close>

lemma promise_all_earliest_reason:
  "promise_all [(5, Rejected ''late''), (1, Fulfilled x), (2, Rejected ''early'')]
     = Rejected ''early''"
  by (simp add: promise_all_def)

text \<open>
  The response's \<^verbatim>\<open>error\<close> is never read: six fulfilled requests publish a
  snapshot whatever errors the responses carry, a missing count or list taking its
  default.
\<close>

lemma dashboard_fulfilled_publishes:
  "fetchDashboardData (t1, Fulfilled r1) (t2, Fulfilled r2) (t3, Fulfilled r3)
       (t4, Fulfilled r4) (t5, Fulfilled r5) (t6, Fulfilled r6) s =
     s\<lparr>d_data := Some \<lparr>artistsCount = count_or_0 r1, bookingsCount = count_or_0 r2,
                        productionsCount = count_or_0 r3, activeProductionsCount = count_or_0 r4,
                        recentProductions = data_or_empty r5, upcomingBookings = data_or_empty r6\<rparr>,
       d_isLoading := False\<rparr>"
  by (simp add: fetchDashboardData_def promise_all_def)

text \<open>
  Claim C1, as the code has it. When at least one of the parallel reads rejects, no
  snapshot is published (the view-model keeps the value it had, unset at activation)
  and the failure is logged; the \<^verbatim>\<open>finally\<close> block then clears the loading flag, so
  the view leaves the loading state and shows the page heading with neither statistics
  nor activity.
\<close>

theorem dashboard_reject_no_snapshot:
  assumes "is_rejected q1 \<or> is_rejected q2 \<or> is_rejected q3 \<or>
           is_rejected q4 \<or> is_rejected q5 \<or> is_rejected q6"
  shows "d_data (fetchDashboardData q1 q2 q3 q4 q5 q6 s) = d_data s \<and>
         d_isLoading (fetchDashboardData q1 q2 q3 q4 q5 q6 s) = False \<and>
         render_dashboard (fetchDashboardData q1 q2 q3 q4 q5 q6 s) = Page (d_data s) \<and>
         (\<exists>e. d_console (fetchDashboardData q1 q2 q3 q4 q5 q6 s) =
                 d_console s @ [(''Error fetching dashboard data:'', e)])"
proof -
  from assms have "\<exists>p \<in> set [q1, q2, q3, q4, q5, q6]. is_rejected p" by auto
  then obtain e where "promise_all [q1, q2, q3, q4, q5, q6] = Rejected e"
    using promise_all_rejected by blast
  then show ?thesis
    by (simp add: fetchDashboardData_def render_dashboard_def)
qed

theorem dashboard_reject_no_snapshot_witness:
  "fetchDashboardData (1, counted 12) (2, counted 30) (3, counted 7)
             (4, Rejected ''Failed to fetch'') (5, rows_of []) (6, rows_of []) dashboard_init
     = \<lparr>d_data = None, d_isLoading = False,
        d_console = [(''Error fetching dashboard data:'', ''Failed to fetch'')]\<rparr>"
  using dashboard_reject_no_snapshot [of "(1, counted 12)" "(2, counted 30)" "(3, counted 7)"
      "(4, Rejected ''Failed to fetch'')" "(5, rows_of [])" "(6, rows_of [])" dashboard_init]
  by (simp add: fetchDashboardData_def promise_all_def dashboard_init_def counted_def
        rows_of_def)

text \<open>
  The scenario of the specification: the count of active productions rejects. Nothing
  is published, and the view is the page without data, not the spinner.
\<close>

theorem dashboard_reject_counterexample:
  "d_data (fetchDashboardData (1, counted 12) (2, counted 30) (3, counted 7)
             (4, Rejected ''Failed to fetch'') (5, rows_of []) (6, rows_of []) dashboard_init) = None \<and>
   render_dashboard (fetchDashboardData (1, counted 12) (2, counted 30) (3, counted 7)
             (4, Rejected ''Failed to fetch'') (5, rows_of []) (6, rows_of []) dashboard_init) = Page None \<and>
   render_dashboard (fetchDashboardData (1, counted 12) (2, counted 30) (3, counted 7)
             (4, Rejected ''Failed to fetch'') (5, rows_of []) (6, rows_of []) dashboard_init) \<noteq> Spinner"
  by (simp add: fetchDashboardData_def promise_all_def render_dashboard_def dashboard_init_def
        counted_def rows_of_def)

section \<open>Properties of the inbox\<close>

subsection \<open>The realtime subscription\<close>

text \<open>
  The function \<^verbatim>\<open>setupRealtime\<close> returns does release the channel when it is
  run.
\<close>

lemma setupRealtime_cleanup_releases:
  "setupRealtime s = (Some c, s') \<Longrightarrow>
   (''member-messages-page'', f) \<notin> set (channels (run_cleanup c s'))"
  by (auto simp: setupRealtime_def split: option.splits)

text \<open>The effect hands no function to React, so none runs at unmount.\<close>

lemma useEffect_body_returns_nothing: "fst (useEffect_body s) = None"
  by (simp add: useEffect_body_def Let_def)

lemma subscription_held_after_unmount:
  "user s = Some u \<Longrightarrow>
   (''member-messages-page'', ''recipient_id=eq.'' @ user_id u)
     \<in> set (channels (unmount (useEffect_body s)))"
  by (simp add: unmount_def useEffect_body_def Let_def fetchMessages_begin_def fetchMessages_begin_as_def
        fetchAdmins_begin_def setupRealtime_def)

text \<open>
  Claim C2 says that the subscription acquired at activation is released at
  deactivation. For the member \<open>alice\<close> the effect subscribes the channel, returns
  nothing, and the channel is still held after the unmount.
\<close>

theorem subscription_survives_unmount:
  "channels (snd (useEffect_body (inbox_init (Some alice) False False)))
     = [(''member-messages-page'', ''recipient_id=eq.u1'')] \<and>
   fst (useEffect_body (inbox_init (Some alice) False False)) = None \<and>
   channels (unmount (useEffect_body (inbox_init (Some alice) False False)))
     = [(''member-messages-page'', ''recipient_id=eq.u1'')]"
  by (simp add: unmount_def useEffect_body_def Let_def fetchMessages_begin_def fetchMessages_begin_as_def
        fetchAdmins_begin_def setupRealtime_def inbox_init_def alice_def)

subsection \<open>Opening a message\<close>

text \<open>
  Claim C3, as the code has it. For an unread message addressed to the current user,
  opening it sends one update and suspends at the \<^verbatim>\<open>await\<close> with the list as it
  was. When the update is fulfilled the entries with the message's id are patched to
  read, whatever the response carries (an error in it is not looked at, nothing is
  rolled back); when the update rejects, the list is not patched.
\<close>

theorem open_patch_after_update:
  assumes "\<not> is_read message"
    and "user s = Some u"
    and "recipient_id message = Some (user_id u)"
  shows
   "handleOpenMessage_begin message s =
      (True, s\<lparr>selectedMessage := Some message,
               requests := requests s @ [UpdateIsRead (msg_id message)]\<rparr>) \<and>
    messages (snd (handleOpenMessage_begin message s)) = messages s \<and>
    handleOpenMessage message (Fulfilled r) s =
      s\<lparr>selectedMessage := Some message,
        requests := requests s @ [UpdateIsRead (msg_id message)],
        messages := mark_read_patch (msg_id message) (messages s)\<rparr> \<and>
    (\<forall>x \<in> set (messages (handleOpenMessage message (Fulfilled r) s)).
       msg_id x = msg_id message \<longrightarrow> is_read x) \<and>
    handleOpenMessage message (Rejected e) s =
      s\<lparr>selectedMessage := Some message,
        requests := requests s @ [UpdateIsRead (msg_id message)]\<rparr>"
  using assms
  by (auto simp: handleOpenMessage_def handleOpenMessage_begin_def handleOpenMessage_resume_def
        is_recipient_def mark_read_patch_def Let_def)

theorem open_patch_after_update_witness:
  "map is_read (messages (handleOpenMessage (msg ''m1'' 3 ''u2'' (Some ''u1'') False)
      (failed ''denied'')
      (fetchMessages (listed [msg ''m1'' 3 ''u2'' (Some ''u1'') False])
         (inbox_init (Some alice) False False))))
     = [True]"
  using open_patch_after_update [of "msg ''m1'' 3 ''u2'' (Some ''u1'') False"
      "fetchMessages (listed [msg ''m1'' 3 ''u2'' (Some ''u1'') False])
         (inbox_init (Some alice) False False)"
      alice "\<lparr>rdata = None, rerror = Some ''denied'', rcount = None\<rparr>"]
  by (simp add: failed_def mark_read_patch_def fetchMessages_def fetchMessages_begin_def fetchMessages_begin_as_def
        fetchMessages_resume_def listed_def data_or_empty_def inbox_init_def alice_def msg_def)

text \<open>
  The patch waits for the update: with the update sent and not yet answered the entry
  is still unread, and it stays unread when the update rejects.
\<close>

theorem open_patch_waits_counterexample:
  "fst (handleOpenMessage_begin (msg ''m1'' 3 ''u2'' (Some ''u1'') False)
      (fetchMessages (listed [msg ''m1'' 3 ''u2'' (Some ''u1'') False])
         (inbox_init (Some alice) False False))) \<and>
   requests (snd (handleOpenMessage_begin (msg ''m1'' 3 ''u2'' (Some ''u1'') False)
      (fetchMessages (listed [msg ''m1'' 3 ''u2'' (Some ''u1'') False])
         (inbox_init (Some alice) False False))))
     = [SelectMessages ''u1'', UpdateIsRead ''m1''] \<and>
   map is_read (messages (snd (handleOpenMessage_begin (msg ''m1'' 3 ''u2'' (Some ''u1'') False)
      (fetchMessages (listed [msg ''m1'' 3 ''u2'' (Some ''u1'') False])
         (inbox_init (Some alice) False False)))))
     = [False] \<and>
   map is_read (messages (handleOpenMessage (msg ''m1'' 3 ''u2'' (Some ''u1'') False)
      (Rejected ''Failed to fetch'')
      (fetchMessages (listed [msg ''m1'' 3 ''u2'' (Some ''u1'') False])
         (inbox_init (Some alice) False False))))
     = [False]"
  by (simp add: handleOpenMessage_def handleOpenMessage_begin_def handleOpenMessage_resume_def
        is_recipient_def fetchMessages_def fetchMessages_begin_def fetchMessages_begin_as_def fetchMessages_resume_def
        listed_def data_or_empty_def inbox_init_def alice_def msg_def)

text \<open>
  Claim C8. Opening a message sends the read-state update exactly when the message is
  unread and addressed to the current user, and sends nothing else: an already read
  message causes no request, and neither does a message the current user sent to
  somebody else.
\<close>

theorem open_updates_iff_unread_recipient:
  "requests (handleOpenMessage message q s) =
     requests s @
       (if \<not> is_read message \<and> (\<exists>u. user s = Some u \<and> recipient_id message = Some (user_id u))
        then [UpdateIsRead (msg_id message)] else []) \<and>
   (is_read message \<longrightarrow> requests (handleOpenMessage message q s) = requests s) \<and>
   ((\<exists>u. user s = Some u \<and> sender_id message = user_id u \<and>
          recipient_id message \<noteq> Some (user_id u)) \<longrightarrow>
      requests (handleOpenMessage message q s) = requests s)"
  by (cases q)
     (auto simp: handleOpenMessage_def handleOpenMessage_begin_def handleOpenMessage_resume_def
        is_recipient_def Let_def split: option.splits)

theorem open_updates_iff_unread_recipient_witness:
  "requests (handleOpenMessage (msg ''m1'' 3 ''u2'' (Some ''u1'') False) succeeded
      (fetchMessages (listed [msg ''m1'' 3 ''u2'' (Some ''u1'') False])
         (inbox_init (Some alice) False False)))
     = [SelectMessages ''u1'', UpdateIsRead ''m1''] \<and>
   requests (handleOpenMessage (msg ''m1'' 3 ''u2'' (Some ''u1'') True) succeeded
      (fetchMessages (listed [msg ''m1'' 3 ''u2'' (Some ''u1'') True])
         (inbox_init (Some alice) False False)))
     = [SelectMessages ''u1''] \<and>
   requests (handleOpenMessage (msg ''m1'' 3 ''u1'' (Some ''u2'') False) succeeded
      (fetchMessages (listed [msg ''m1'' 3 ''u1'' (Some ''u2'') False])
         (inbox_init (Some alice) False False)))
     = [SelectMessages ''u1'']"
  using
    open_updates_iff_unread_recipient [of "msg ''m1'' 3 ''u2'' (Some ''u1'') False" succeeded
      "fetchMessages (listed [msg ''m1'' 3 ''u2'' (Some ''u1'') False])
         (inbox_init (Some alice) False False)"]
    open_updates_iff_unread_recipient [of "msg ''m1'' 3 ''u2'' (Some ''u1'') True" succeeded
      "fetchMessages (listed [msg ''m1'' 3 ''u2'' (Some ''u1'') True])
         (inbox_init (Some alice) False False)"]
    open_updates_iff_unread_recipient [of "msg ''m1'' 3 ''u1'' (Some ''u2'') False" succeeded
      "fetchMessages (listed [msg ''m1'' 3 ''u1'' (Some ''u2'') False])
         (inbox_init (Some alice) False False)"]
  by (simp add: fetchMessages_def fetchMessages_begin_def fetchMessages_begin_as_def fetchMessages_resume_def listed_def
        data_or_empty_def inbox_init_def alice_def msg_def)

lemma length_mark_read_patch: "length (mark_read_patch mid ms) = length ms"
  by (simp add: mark_read_patch_def)

lemma nth_mark_read_patch:
  "i < length ms \<Longrightarrow>
   mark_read_patch mid ms ! i =
     (if msg_id (ms ! i) = mid then (ms ! i)\<lparr>is_read := True\<rparr> else ms ! i)"
  by (simp add: mark_read_patch_def)

text \<open>
  Claim C10. The mark-read patch keeps the length of the list and, position by
  position, leaves an entry with another id as it is and changes an entry with the
  opened id in its \<^verbatim>\<open>is_read\<close> field alone; every other field of every entry is
  unchanged. It is the whole of what the handler does to the list.
\<close>

theorem mark_read_patch_frame:
  "length (mark_read_patch mid ms) = length ms \<and>
   (\<forall>i < length ms.
      (msg_id (ms ! i) \<noteq> mid \<longrightarrow> mark_read_patch mid ms ! i = ms ! i) \<and>
      (msg_id (ms ! i) = mid \<longrightarrow> mark_read_patch mid ms ! i = (ms ! i)\<lparr>is_read := True\<rparr>) \<and>
      msg_id (mark_read_patch mid ms ! i) = msg_id (ms ! i) \<and>
      subject (mark_read_patch mid ms ! i) = subject (ms ! i) \<and>
      content (mark_read_patch mid ms ! i) = content (ms ! i) \<and>
      is_admin_message (mark_read_patch mid ms ! i) = is_admin_message (ms ! i) \<and>
      created_at (mark_read_patch mid ms ! i) = created_at (ms ! i) \<and>
      sender_id (mark_read_patch mid ms ! i) = sender_id (ms ! i) \<and>
      recipient_id (mark_read_patch mid ms ! i) = recipient_id (ms ! i)) \<and>
   messages (handleOpenMessage_resume message (Fulfilled r) s) =
     mark_read_patch (msg_id message) (messages s)"
  by (simp add: length_mark_read_patch nth_mark_read_patch handleOpenMessage_resume_def)

theorem mark_read_patch_frame_witness:
  "mark_read_patch ''m1''
      [msg ''m2'' 5 ''u2'' (Some ''u1'') False, msg ''m1'' 3 ''u2'' (Some ''u1'') False]
     = [msg ''m2'' 5 ''u2'' (Some ''u1'') False, msg ''m1'' 3 ''u2'' (Some ''u1'') True]"
proof -
  let ?ms = "[msg ''m2'' 5 ''u2'' (Some ''u1'') False, msg ''m1'' 3 ''u2'' (Some ''u1'') False]"
  have len: "length (mark_read_patch ''m1'' ?ms) = 2"
    using mark_read_patch_frame [of "''m1''" ?ms] by simp
  have n0: "mark_read_patch ''m1'' ?ms ! 0 = msg ''m2'' 5 ''u2'' (Some ''u1'') False"
    using mark_read_patch_frame [of "''m1''" ?ms] by (simp add: msg_def)
  have n1: "mark_read_patch ''m1'' ?ms ! 1 = msg ''m1'' 3 ''u2'' (Some ''u1'') True"
    using mark_read_patch_frame [of "''m1''" ?ms] by (simp add: msg_def)
  show ?thesis
    using len n0 n1 by (simp add: list_eq_iff_nth_eq less_Suc_eq numeral_2_eq_2)
qed

subsection \<open>The derived views\<close>

text \<open>
  Claim C4, as the code has it. The two filters are independent: a message lies in both
  the sent and the received view exactly when the current user is its sender and its
  recipient. The views are therefore disjoint on every list without such a message, and
  a message whose sender and recipient differ is never in both.
\<close>

theorem sent_received_overlap:
  "set (sentMessages s) \<inter> set (receivedMessages s) =
     {m \<in> set (messages s).
        \<exists>u. user s = Some u \<and> sender_id m = user_id u \<and> recipient_id m = Some (user_id u)}"
  by (auto simp: sentMessages_def receivedMessages_def is_sender_def is_recipient_def
           split: option.splits)

theorem sent_received_overlap_witness:
  "set (sentMessages (fetchMessages (listed [msg ''m1'' 3 ''u1'' None False])
                        (inbox_init (Some alice) False False))) \<inter>
   set (receivedMessages (fetchMessages (listed [msg ''m1'' 3 ''u1'' None False])
                        (inbox_init (Some alice) False False))) = {}"
  using sent_received_overlap [of "fetchMessages (listed [msg ''m1'' 3 ''u1'' None False])
                        (inbox_init (Some alice) False False)"]
  by (simp add: fetchMessages_def fetchMessages_begin_def fetchMessages_begin_as_def fetchMessages_resume_def listed_def
        data_or_empty_def inbox_init_def alice_def msg_def)

text \<open>A message the current user addressed to themself is in both views.\<close>

theorem sent_received_overlap_counterexample:
  "msg ''m1'' 3 ''u1'' (Some ''u1'') False
     \<in> set (sentMessages (fetchMessages (listed [msg ''m1'' 3 ''u1'' (Some ''u1'') False])
                             (inbox_init (Some alice) False False))) \<inter>
       set (receivedMessages (fetchMessages (listed [msg ''m1'' 3 ''u1'' (Some ''u1'') False])
                             (inbox_init (Some alice) False False)))"
  by (simp add: sentMessages_def receivedMessages_def is_sender_def is_recipient_def
        fetchMessages_def fetchMessages_begin_def fetchMessages_begin_as_def fetchMessages_resume_def listed_def
        data_or_empty_def inbox_init_def alice_def msg_def)

subsection \<open>The order of the list\<close>








subsection \<open>Sending\<close>

text \<open>
  The re-list after a successful insert is sent for the user who sent the message, also
  when nobody is signed in any more at the moment the insert settles.
\<close>

lemma send_relist_as_sender:
  "requests (handleSendMessage_resume (Some u) succeeded (s\<lparr>user := None\<rparr>))
     = requests s @ [SelectMessages (user_id u)]"
  by (simp add: handleSendMessage_resume_def fetchMessages_begin_as_def succeeded_def)

text \<open>
  Claim C6. The ids of the admins are the keys of their profile rows, none of which is
  the empty string. With a signed-in user and a non-empty subject and content, sending
  inserts one message whose sender is the current user, whose recipient is the first
  admin of the list, or absent when the list is empty, and which is not an admin
  message. When the insert succeeds the dialog is closed, the form is cleared, the list
  is left as it is and a new fetch is requested; when it fails an error toast is shown
  and the dialog and the form are left as they were.
\<close>

theorem send_valid:
  assumes "user s = Some u"
    and "form_subject (messageForm s) \<noteq> []"
    and "form_content (messageForm s) \<noteq> []"
    and "\<forall>a \<in> set (admins s). admin_id a \<noteq> []"
  shows
   "handleSendMessage_begin s =
      (True,
       s\<lparr>isSending := True,
         requests := requests s @
           [InsertMessage
              \<lparr>ins_sender_id = user_id u,
               ins_recipient_id = (case admins s of [] \<Rightarrow> None | a # _ \<Rightarrow> Some (admin_id a)),
               ins_subject = form_subject (messageForm s),
               ins_content = form_content (messageForm s),
               ins_is_admin_message = False\<rparr>]\<rparr>) \<and>
    (\<not> query_failed q \<longrightarrow>
       newMessageOpen (handleSendMessage q s) = False \<and>
       messageForm (handleSendMessage q s) = \<lparr>form_subject = [], form_content = []\<rparr> \<and>
       messages (handleSendMessage q s) = messages s \<and>
       requests (handleSendMessage q s) =
         requests (snd (handleSendMessage_begin s)) @ [SelectMessages (user_id u)] \<and>
       toasts (handleSendMessage q s) = toasts s @ [ToastSuccess ''Mensagem enviada!'']) \<and>
    (query_failed q \<longrightarrow>
       newMessageOpen (handleSendMessage q s) = newMessageOpen s \<and>
       messageForm (handleSendMessage q s) = messageForm s \<and>
       messages (handleSendMessage q s) = messages s \<and>
       requests (handleSendMessage q s) = requests (snd (handleSendMessage_begin s)) \<and>
       toasts (handleSendMessage q s) = toasts s @ [ToastError ''Erro ao enviar mensagem''])"
proof -
  have r: "first_admin_or_null (admins s) =
             (case admins s of [] \<Rightarrow> None | a # _ \<Rightarrow> Some (admin_id a))"
    using assms(4) by (cases "admins s") (simp_all add: first_admin_or_null_def)
  have b: "handleSendMessage_begin s =
      (True,
       s\<lparr>isSending := True,
         requests := requests s @
           [InsertMessage
              \<lparr>ins_sender_id = user_id u,
               ins_recipient_id = (case admins s of [] \<Rightarrow> None | a # _ \<Rightarrow> Some (admin_id a)),
               ins_subject = form_subject (messageForm s),
               ins_content = form_content (messageForm s),
               ins_is_admin_message = False\<rparr>]\<rparr>)"
    using assms(1-3) by (simp add: handleSendMessage_begin_def r)
  have ok: "\<not> query_failed q \<Longrightarrow> ?thesis"
    using assms(1)
    by (cases q)
       (simp_all add: b handleSendMessage_def handleSendMessage_resume_def send_failed_def
          fetchMessages_begin_as_def query_failed_def Let_def)
  have ko: "query_failed q \<Longrightarrow> ?thesis"
    using assms(1)
    by (cases q)
       (auto simp: b handleSendMessage_def handleSendMessage_resume_def send_failed_def
          query_failed_def Let_def)
  show ?thesis using ok ko by blast
qed

theorem send_valid_witness:
  "requests (handleSendMessage succeeded
      (composing ''Horario'' ''Posso remarcar?''
         (fetchAdmins_profiles
            (Fulfilled \<lparr>rdata = Some [\<lparr>admin_id = ''a1'', full_name = ''Root''\<rparr>,
                                      \<lparr>admin_id = ''a2'', full_name = ''Nave''\<rparr>],
                        rerror = None, rcount = None\<rparr>)
            (inbox_init (Some alice) False True))))
     = [InsertMessage \<lparr>ins_sender_id = ''u1'', ins_recipient_id = Some ''a1'',
                       ins_subject = ''Horario'', ins_content = ''Posso remarcar?'',
                       ins_is_admin_message = False\<rparr>,
        SelectMessages ''u1''] \<and>
   requests (handleSendMessage succeeded
      (composing ''Horario'' ''Posso remarcar?'' (inbox_init (Some alice) False True)))
     = [InsertMessage \<lparr>ins_sender_id = ''u1'', ins_recipient_id = None, ins_subject = ''Horario'',
                       ins_content = ''Posso remarcar?'', ins_is_admin_message = False\<rparr>,
        SelectMessages ''u1''] \<and>
   newMessageOpen (handleSendMessage succeeded
      (composing ''Horario'' ''Posso remarcar?'' (inbox_init (Some alice) False True))) = False \<and>
   newMessageOpen (handleSendMessage (failed ''denied'')
      (composing ''Horario'' ''Posso remarcar?'' (inbox_init (Some alice) False True))) = True \<and>
   messageForm (handleSendMessage (failed ''denied'')
      (composing ''Horario'' ''Posso remarcar?'' (inbox_init (Some alice) False True)))
     = \<lparr>form_subject = ''Horario'', form_content = ''Posso remarcar?''\<rparr>"
  using
    send_valid [of "composing ''Horario'' ''Posso remarcar?''
         (fetchAdmins_profiles
            (Fulfilled \<lparr>rdata = Some [\<lparr>admin_id = ''a1'', full_name = ''Root''\<rparr>,
                                      \<lparr>admin_id = ''a2'', full_name = ''Nave''\<rparr>],
                        rerror = None, rcount = None\<rparr>)
            (inbox_init (Some alice) False True))"
      alice succeeded]
    send_valid [of "composing ''Horario'' ''Posso remarcar?'' (inbox_init (Some alice) False True)"
      alice succeeded]
    send_valid [of "composing ''Horario'' ''Posso remarcar?'' (inbox_init (Some alice) False True)"
      alice "failed ''denied''"]
  by (simp add: composing_def fetchAdmins_profiles_def data_or_empty_def inbox_init_def
        alice_def succeeded_def failed_def query_failed_def)

text \<open>
  Claim C7. Without a signed-in user, or with an empty subject or an empty content,
  sending shows the validation toast and does nothing else: no request is sent, the
  handler does not reach its \<^verbatim>\<open>await\<close>, and no other part of the state changes.
\<close>

theorem send_invalid_no_request:
  "user s = None \<or> form_subject (messageForm s) = [] \<or> form_content (messageForm s) = [] \<Longrightarrow>
   handleSendMessage q s = s\<lparr>toasts := toasts s @ [ToastError ''Preencha todos os campos'']\<rparr> \<and>
   requests (handleSendMessage q s) = requests s \<and>
   fst (handleSendMessage_begin s) = False"
  by (auto simp: handleSendMessage_def handleSendMessage_begin_def split: option.splits)

theorem send_invalid_no_request_witness:
  "requests (handleSendMessage succeeded
      (composing [] ''Posso remarcar?'' (inbox_init (Some alice) False True))) = [] \<and>
   toasts (handleSendMessage succeeded
      (composing [] ''Posso remarcar?'' (inbox_init (Some alice) False True)))
     = [ToastError ''Preencha todos os campos'']"
  using send_invalid_no_request
    [of "composing [] ''Posso remarcar?'' (inbox_init (Some alice) False True)" succeeded]
  by (simp add: composing_def inbox_init_def)

subsection \<open>Listing\<close>

text \<open>
  The operation is called at two places, both in a render with a signed-in user: in the
  effect under \<^verbatim>\<open>if (user)\<close>, and in the send handler after its \<^verbatim>\<open>!user\<close>
  return. Its own guard on the user therefore never returns early.
\<close>

lemma relist_only_with_user: "fst (handleSendMessage_begin s) \<Longrightarrow> user s \<noteq> None"
  by (auto simp: handleSendMessage_begin_def split: option.splits)

lemma effect_lists_only_with_user:
  "requests (snd (useEffect_body s)) \<noteq> requests s \<Longrightarrow> user s \<noteq> None"
  by (auto simp: useEffect_body_def split: if_splits)

text \<open>
  Claim C9. On every invocation of the list operation (which the component makes with
  a signed-in user) the loading flag is cleared however the query settles, and a failed
  query is logged and otherwise silent: the list is the one held before, and no toast
  is shown.
\<close>

theorem fetchMessages_error_silent:
  assumes "user s \<noteq> None"
  shows "isLoading (fetchMessages q s) = False \<and>
         (query_failed q \<longrightarrow>
            messages (fetchMessages q s) = messages s \<and>
            console (fetchMessages q s) =
              console s @ [(''Error fetching messages:'', failure_reason q)] \<and>
            toasts (fetchMessages q s) = toasts s)"
  using assms
  by (cases q)
     (auto simp: fetchMessages_def fetchMessages_begin_def fetchMessages_begin_as_def
        fetchMessages_resume_def Let_def query_failed_def failure_reason_def
        split: option.splits)

theorem fetchMessages_error_silent_witness:
  "isLoading (fetchMessages (failed ''timeout'')
       (fetchMessages (listed [msg ''m1'' 3 ''u2'' (Some ''u1'') False])
          (inbox_init (Some alice) False False))) = False \<and>
   messages (fetchMessages (failed ''timeout'')
       (fetchMessages (listed [msg ''m1'' 3 ''u2'' (Some ''u1'') False])
          (inbox_init (Some alice) False False)))
     = [msg ''m1'' 3 ''u2'' (Some ''u1'') False] \<and>
   console (fetchMessages (failed ''timeout'')
       (fetchMessages (listed [msg ''m1'' 3 ''u2'' (Some ''u1'') False])
          (inbox_init (Some alice) False False)))
     = [(''Error fetching messages:'', ''timeout'')] \<and>
   isLoading (fetchMessages (Rejected ''Failed to fetch'') (inbox_init (Some alice) False False))
     = False"
  using
    fetchMessages_error_silent [of
      "fetchMessages (listed [msg ''m1'' 3 ''u2'' (Some ''u1'') False])
         (inbox_init (Some alice) False False)"
      "failed ''timeout''"]
    fetchMessages_error_silent [of "inbox_init (Some alice) False False"
      "Rejected ''Failed to fetch''"]
  by (simp add: fetchMessages_def fetchMessages_begin_def fetchMessages_begin_as_def
        fetchMessages_resume_def listed_def failed_def query_failed_def failure_reason_def
        data_or_empty_def inbox_init_def alice_def)

end
